theory Spec2Isabelle
  imports Complex_Main
begin

section \<open>The cellular growth simulator\<close>

text \<open>
  The numeric core of \<^verbatim>\<open>CellularGrowthSimulator\<close>: the two closed-form growth
  curves and the analytic half-capacity solver \<^verbatim>\<open>_calcular_tiempo_medio\<close>.
  The formulas are modelled over the reals: a statement about
  \<open>crecimiento_sin_tratamiento\<close>, \<open>crecimiento_con_tratamiento\<close> or
  \<open>calcular_tiempo_medio\<close> is a statement in exact real arithmetic, with rounding,
  overflow and underflow left out. The treated curve is modelled a second time,
  \<open>crecimiento_con_tratamiento_f64\<close>, with the rounding of the 64-bit floats the
  program computes with, because there the two differ in what they return.
  The leading underscore of the method names is dropped.
\<close>

subsection \<open>Arithmetic that can fail\<close>

text \<open>
  The source divides, takes a logarithm and a square root. Where the operand has no real
  result (a zero divisor, the logarithm of a number that is not positive, the square root
  of a negative number) Python raises, and numpy yields a value that is not a real number
  (\<^verbatim>\<open>inf\<close>, \<^verbatim>\<open>-inf\<close>, \<^verbatim>\<open>nan\<close>, with a warning). HOL's own
  \<open>x / 0\<close>, \<open>ln\<close> and \<open>sqrt\<close> return some real there, so the guards are written out
  and the failure is a value of the model. Inside the solver the two readings agree: a
  raised error is caught by the bare \<^verbatim>\<open>except\<close>, and a value that is not a real
  number fails either \<^verbatim>\<open>discriminant >= 0\<close> or the range check against the
  finite horizon, so the result is \<^verbatim>\<open>None\<close> both ways.
\<close>

datatype error = DomainError | ZeroDivisionError

definition py_div :: "real \<Rightarrow> real \<Rightarrow> error + real" where
  "py_div x y = (if y = 0 then Inl ZeroDivisionError else Inr (x / y))"

definition np_log :: "real \<Rightarrow> error + real" where
  "np_log x = (if x \<le> 0 then Inl DomainError else Inr (ln x))"

definition np_sqrt :: "real \<Rightarrow> error + real" where
  "np_sqrt x = (if x < 0 then Inl DomainError else Inr (sqrt x))"

subsection \<open>The growth curves\<close>

text \<open>
  \<^verbatim>\<open>return N0 * (2 ** (t/Td)) * np.exp(-0.02*t)\<close>
\<close>

definition crecimiento_sin_tratamiento :: "real \<Rightarrow> real \<Rightarrow> real \<Rightarrow> error + real" where
  "crecimiento_sin_tratamiento t N0 Td =
     (case py_div t Td of
        Inl e \<Rightarrow> Inl e
      | Inr q \<Rightarrow> Inr (N0 * (2 powr q) * exp (- (2 / 100) * t)))"

text \<open>
  \<^verbatim>\<open>A = (K - N0) / N0\<close>
  \<^verbatim>\<open>return K / (1 + A * np.exp(-r * t * (1 - alpha * t)))\<close>
\<close>

definition crecimiento_con_tratamiento ::
  "real \<Rightarrow> real \<Rightarrow> real \<Rightarrow> real \<Rightarrow> real \<Rightarrow> error + real" where
  "crecimiento_con_tratamiento t N0 K r alpha =
     (case py_div (K - N0) N0 of
        Inl e \<Rightarrow> Inl e
      | Inr A \<Rightarrow> py_div K (1 + A * exp (- r * t * (1 - alpha * t))))"

subsection \<open>The treated curve in 64-bit floating point\<close>

text \<open>
  The program computes with IEEE 754 binary64 numbers, not with reals. For the treated
  curve the difference is visible, so the same expression is modelled a second time with
  the program's arithmetic: every operation computes the exact real result and rounds it
  to the nearest binary64 number, ties to even; a result of magnitude \<open>2^1024\<close> or more
  after rounding is an infinity. Values are the finite binary64 numbers (as the reals they
  denote), the two infinities and \<^verbatim>\<open>nan\<close>. The sign of a zero is not kept: the only
  divisor of the expression that can be zero under numpy is the sum
  \<^verbatim>\<open>1 + A * np.exp(...)\<close>, and a sum that cancels is \<open>+0\<close>. The value of
  \<^verbatim>\<open>np.exp\<close> is taken as the correctly rounded one.
\<close>

datatype f64 = Finite real | PosInf | NegInf | NaN

definition round_half_even :: "real \<Rightarrow> int" where
  "round_half_even u =
     (let f = \<lfloor>u\<rfloor>; d = u - of_int f
      in if d < 1 / 2 then f else if d > 1 / 2 then f + 1 else if even f then f else f + 1)"

text \<open>
  \<open>e\<close> is the binary exponent of \<open>x\<close>, held at \<open>-1022\<close> in the subnormal range;
  \<open>q\<close> is the spacing of the binary64 numbers around \<open>x\<close> (53 significant bits).
\<close>

definition round64 :: "real \<Rightarrow> f64" where
  "round64 x =
     (if x = 0 then Finite 0
      else let e = max \<lfloor>log 2 \<bar>x\<bar>\<rfloor> (- 1022);
               q = 2 powr (of_int e - 52);
               m = q * of_int (round_half_even (\<bar>x\<bar> / q))
           in if m \<ge> 2 ^ 1024 then (if x > 0 then PosInf else NegInf)
              else Finite (sgn x * m))"

fun f64_neg :: "f64 \<Rightarrow> f64" where
  "f64_neg (Finite x) = Finite (- x)"
| "f64_neg PosInf = NegInf"
| "f64_neg NegInf = PosInf"
| "f64_neg NaN = NaN"

fun f64_add :: "f64 \<Rightarrow> f64 \<Rightarrow> f64" where
  "f64_add (Finite x) (Finite y) = round64 (x + y)"
| "f64_add NaN b = NaN"
| "f64_add a NaN = NaN"
| "f64_add PosInf NegInf = NaN"
| "f64_add NegInf PosInf = NaN"
| "f64_add PosInf b = PosInf"
| "f64_add a PosInf = PosInf"
| "f64_add NegInf b = NegInf"
| "f64_add a NegInf = NegInf"

definition f64_sub :: "f64 \<Rightarrow> f64 \<Rightarrow> f64" where
  "f64_sub a b = f64_add a (f64_neg b)"

fun f64_mul :: "f64 \<Rightarrow> f64 \<Rightarrow> f64" where
  "f64_mul (Finite x) (Finite y) = round64 (x * y)"
| "f64_mul NaN b = NaN"
| "f64_mul a NaN = NaN"
| "f64_mul (Finite x) PosInf = (if x = 0 then NaN else if x > 0 then PosInf else NegInf)"
| "f64_mul (Finite x) NegInf = (if x = 0 then NaN else if x > 0 then NegInf else PosInf)"
| "f64_mul PosInf (Finite y) = (if y = 0 then NaN else if y > 0 then PosInf else NegInf)"
| "f64_mul NegInf (Finite y) = (if y = 0 then NaN else if y > 0 then NegInf else PosInf)"
| "f64_mul PosInf PosInf = PosInf"
| "f64_mul PosInf NegInf = NegInf"
| "f64_mul NegInf PosInf = NegInf"
| "f64_mul NegInf NegInf = PosInf"

text \<open>
  numpy's division: a zero divisor gives an infinity, or \<^verbatim>\<open>nan\<close> for \<open>0 / 0\<close>, with
  a warning.
\<close>

fun f64_div :: "f64 \<Rightarrow> f64 \<Rightarrow> f64" where
  "f64_div (Finite x) (Finite y) =
     (if y = 0 then (if x = 0 then NaN else if x > 0 then PosInf else NegInf)
      else round64 (x / y))"
| "f64_div NaN b = NaN"
| "f64_div a NaN = NaN"
| "f64_div (Finite x) PosInf = Finite 0"
| "f64_div (Finite x) NegInf = Finite 0"
| "f64_div PosInf (Finite y) = (if y < 0 then NegInf else PosInf)"
| "f64_div NegInf (Finite y) = (if y < 0 then PosInf else NegInf)"
| "f64_div PosInf PosInf = NaN"
| "f64_div PosInf NegInf = NaN"
| "f64_div NegInf PosInf = NaN"
| "f64_div NegInf NegInf = NaN"

fun f64_exp :: "f64 \<Rightarrow> f64" where
  "f64_exp (Finite x) = round64 (exp x)"
| "f64_exp PosInf = PosInf"
| "f64_exp NegInf = Finite 0"
| "f64_exp NaN = NaN"

text \<open>
  \<^verbatim>\<open>A = (K - N0) / N0\<close> is a division of Python floats, which raises
  \<^verbatim>\<open>ZeroDivisionError\<close> on a zero divisor; the rest is numpy arithmetic and raises
  nothing. \<^verbatim>\<open>-r * t * (1 - alpha * t)\<close> is \<open>((-r) * t) * (1 - alpha * t)\<close>.
\<close>

definition crecimiento_con_tratamiento_f64 ::
  "f64 \<Rightarrow> f64 \<Rightarrow> f64 \<Rightarrow> f64 \<Rightarrow> f64 \<Rightarrow> error + f64" where
  "crecimiento_con_tratamiento_f64 t N0 K r alpha =
     (if N0 = Finite 0 then Inl ZeroDivisionError
      else let A = f64_div (f64_sub K N0) N0
           in Inr (f64_div K
                (f64_add (Finite 1)
                   (f64_mul A
                      (f64_exp (f64_mul (f64_mul (f64_neg r) t)
                                  (f64_sub (Finite 1) (f64_mul alpha t))))))))"

subsection \<open>The simulator object\<close>

text \<open>
  The fields that \<^verbatim>\<open>__init__\<close> stores; the widgets carry no numeric content and are
  left out. \<open>default_simulator\<close> is the object built from the constructor's default
  arguments.
\<close>

record simulator =
  K :: real
  N0_initial :: real
  r0 :: real
  alpha0 :: real
  Tf :: real
  Td :: real

definition default_simulator :: simulator where
  "default_simulator =
     \<lparr>K = 800, N0_initial = 50, r0 = 25 / 100, alpha0 = 1 / 100, Tf = 40, Td = 35 / 10\<rparr>"

subsection \<open>The half-capacity solver\<close>

text \<open>
  The root selection of line 148:
  \<^verbatim>\<open>max(t1, t2) if t1 > 0 and t2 > 0 else (t1 if t1 > 0 else t2)\<close>
\<close>

definition t_half_candidate :: "real \<Rightarrow> real \<Rightarrow> real" where
  "t_half_candidate t1 t2 =
     (if t1 > 0 \<and> t2 > 0 then max t1 t2 else (if t1 > 0 then t1 else t2))"

text \<open>
  The body of the \<^verbatim>\<open>try\<close> block. \<open>Inl e\<close>: the body failed with \<open>e\<close>;
  \<open>Inr (Some t)\<close>: it reached \<^verbatim>\<open>return t_half_analytic\<close>; \<open>Inr None\<close>: it
  fell through to the \<^verbatim>\<open>return None\<close> after the block.
\<close>

definition tiempo_medio_try ::
  "simulator \<Rightarrow> real \<Rightarrow> real \<Rightarrow> real \<Rightarrow> real \<Rightarrow> error + real option" where
  "tiempo_medio_try self N0 r alpha A =
     (let a_param = - r * alpha;
          b_param = r
      in case np_log A of
           Inl e \<Rightarrow> Inl e
         | Inr l \<Rightarrow>
            (let c_param = - l;
                 discriminant = b_param\<^sup>2 - 4 * a_param * c_param
             in if discriminant \<ge> 0 then
                  (case np_sqrt discriminant of
                     Inl e \<Rightarrow> Inl e
                   | Inr s \<Rightarrow>
                      (case py_div (- b_param + s) (2 * a_param) of
                         Inl e \<Rightarrow> Inl e
                       | Inr t1 \<Rightarrow>
                          (case py_div (- b_param - s) (2 * a_param) of
                             Inl e \<Rightarrow> Inl e
                           | Inr t2 \<Rightarrow>
                              (let t_half_analytic = t_half_candidate t1 t2
                               in if t_half_analytic > 0 \<and> t_half_analytic \<le> Tf self
                                  then Inr (Some t_half_analytic)
                                  else Inr None))))
                else Inr None))"

text \<open>
  \<^verbatim>\<open>_calcular_tiempo_medio\<close>: the bare \<^verbatim>\<open>except: pass\<close> sends every
  failure of the body to the final \<^verbatim>\<open>return None\<close>.
\<close>

definition calcular_tiempo_medio ::
  "simulator \<Rightarrow> real \<Rightarrow> real \<Rightarrow> real \<Rightarrow> real \<Rightarrow> real option" where
  "calcular_tiempo_medio self N0 r alpha A =
     (case tiempo_medio_try self N0 r alpha A of
        Inl e \<Rightarrow> None
      | Inr res \<Rightarrow> res)"

text \<open>
  The part of \<^verbatim>\<open>_update_plot\<close> that calls the solver:
  \<^verbatim>\<open>A_auto = (self.K - N0) / N0\<close> outside any \<^verbatim>\<open>try\<close>, then
  \<^verbatim>\<open>self._calcular_tiempo_medio(N0, r, alpha, A_auto)\<close>.
\<close>

definition update_plot_t_half ::
  "simulator \<Rightarrow> real \<Rightarrow> real \<Rightarrow> real \<Rightarrow> error + real option" where
  "update_plot_t_half self N0 r alpha =
     (case py_div (K self - N0) N0 of
        Inl e \<Rightarrow> Inl e
      | Inr A_auto \<Rightarrow> Inr (calcular_tiempo_medio self N0 r alpha A_auto))"

section \<open>Auxiliary facts\<close>

text \<open>
  How the body of the \<^verbatim>\<open>try\<close> block ends, case by case, and the
  quadratic formula the solver relies on.
\<close>

lemma t_half_candidate_cases:
  "t_half_candidate t1 t2 = t1 \<or> t_half_candidate t1 t2 = t2"
  by (simp add: t_half_candidate_def max_def)

lemma tiempo_medio_try_log_fails:
  "A \<le> 0 \<Longrightarrow> tiempo_medio_try self N0 r alpha A = Inl DomainError"
  by (simp add: tiempo_medio_try_def np_log_def)

lemma tiempo_medio_try_div_fails:
  assumes "A > 0" and "r * alpha = 0"
  shows "tiempo_medio_try self N0 r alpha A = Inl ZeroDivisionError"
  using assms by (auto simp add: tiempo_medio_try_def np_log_def np_sqrt_def py_div_def Let_def)

lemma tiempo_medio_try_negative_discriminant:
  assumes "A > 0" and "r\<^sup>2 - 4 * (- r * alpha) * (- ln A) < 0"
  shows "tiempo_medio_try self N0 r alpha A = Inr None"
  using assms by (simp add: tiempo_medio_try_def np_log_def Let_def)

lemma tiempo_medio_try_regular:
  assumes "A > 0" and "r * alpha \<noteq> 0" and "r\<^sup>2 - 4 * (- r * alpha) * (- ln A) \<ge> 0"
  shows "tiempo_medio_try self N0 r alpha A =
     (let s = sqrt (r\<^sup>2 - 4 * (- r * alpha) * (- ln A));
          c = t_half_candidate ((- r + s) / (2 * (- r * alpha))) ((- r - s) / (2 * (- r * alpha)))
      in if c > 0 \<and> c \<le> Tf self then Inr (Some c) else Inr None)"
  using assms by (simp add: tiempo_medio_try_def np_log_def np_sqrt_def py_div_def Let_def)

lemma quadratic_formula_root:
  fixes a b c t :: real
  assumes a: "a \<noteq> 0" and d: "b\<^sup>2 - 4 * a * c \<ge> 0"
    and t: "t = (- b + sqrt (b\<^sup>2 - 4 * a * c)) / (2 * a) \<or> t = (- b - sqrt (b\<^sup>2 - 4 * a * c)) / (2 * a)"
  shows "a * t\<^sup>2 + b * t + c = 0"
proof -
  define s where "s = sqrt (b\<^sup>2 - 4 * a * c)"
  have s2: "s\<^sup>2 = b\<^sup>2 - 4 * a * c"
    using d by (simp add: s_def)
  have "2 * a * t + b = s \<or> 2 * a * t + b = - s"
    using t a by (auto simp: s_def field_simps)
  then have "(2 * a * t + b)\<^sup>2 = s\<^sup>2"
    by auto
  then have "4 * a * (a * t\<^sup>2 + b * t + c) = 0"
    using s2 by (simp add: power2_eq_square algebra_simps)
  then show ?thesis
    using a by simp
qed

lemma calcular_tiempo_medio_regular:
  assumes "A > 0" and "r * alpha \<noteq> 0" and "r\<^sup>2 - 4 * (- r * alpha) * (- ln A) \<ge> 0"
  shows "calcular_tiempo_medio self N0 r alpha A =
     (let s = sqrt (r\<^sup>2 - 4 * (- r * alpha) * (- ln A));
          c = t_half_candidate ((- r + s) / (2 * (- r * alpha))) ((- r - s) / (2 * (- r * alpha)))
      in if c > 0 \<and> c \<le> Tf self then Some c else None)"
  unfolding calcular_tiempo_medio_def tiempo_medio_try_regular [OF assms]
  by (simp add: Let_def)

lemma calcular_tiempo_medio_Some_regular:
  assumes "calcular_tiempo_medio self N0 r alpha A = Some t"
  shows "A > 0 \<and> r * alpha \<noteq> 0 \<and> r\<^sup>2 - 4 * (- r * alpha) * (- ln A) \<ge> 0"
proof -
  have "A > 0"
    using assms tiempo_medio_try_log_fails [of A self N0 r alpha]
    by (cases "A > 0") (simp_all add: calcular_tiempo_medio_def)
  moreover have "r * alpha \<noteq> 0"
    using assms \<open>A > 0\<close> tiempo_medio_try_div_fails [of A r alpha self N0]
    by (cases "r * alpha = 0") (simp_all add: calcular_tiempo_medio_def)
  moreover have "r\<^sup>2 - 4 * (- r * alpha) * (- ln A) \<ge> 0"
    using assms \<open>A > 0\<close> tiempo_medio_try_negative_discriminant [of A r alpha self N0]
    by (cases "r\<^sup>2 - 4 * (- r * alpha) * (- ln A) \<ge> 0") (simp_all add: calcular_tiempo_medio_def)
  ultimately show ?thesis by simp
qed

lemma calcular_tiempo_medio_Some_root:
  assumes "calcular_tiempo_medio self N0 r alpha A = Some t"
  shows "0 < t \<and> t \<le> Tf self \<and> A > 0 \<and> ln A = r * t * (1 - alpha * t)"
proof -
  define s where "s = sqrt (r\<^sup>2 - 4 * (- r * alpha) * (- ln A))"
  define c where "c = t_half_candidate ((- r + s) / (2 * (- r * alpha))) ((- r - s) / (2 * (- r * alpha)))"
  have reg: "A > 0" "r * alpha \<noteq> 0" "r\<^sup>2 - 4 * (- r * alpha) * (- ln A) \<ge> 0"
    using calcular_tiempo_medio_Some_regular [OF assms] by simp_all
  have "calcular_tiempo_medio self N0 r alpha A = (if c > 0 \<and> c \<le> Tf self then Some c else None)"
    unfolding c_def s_def using calcular_tiempo_medio_regular [OF reg, of self N0]
    by (simp only: Let_def)
  then have "(if c > 0 \<and> c \<le> Tf self then Some c else None) = Some t"
    using assms by simp
  then have t: "t = c" "0 < c" "c \<le> Tf self"
    by (simp_all split: if_splits)
  have "t = (- r + s) / (2 * (- r * alpha)) \<or> t = (- r - s) / (2 * (- r * alpha))"
    using t(1) t_half_candidate_cases unfolding c_def by blast
  then have "(- r * alpha) * t\<^sup>2 + r * t + (- ln A) = 0"
    using reg(2,3) unfolding s_def by (intro quadratic_formula_root) simp_all
  moreover have "r * t * (1 - alpha * t) = (- r * alpha) * t\<^sup>2 + r * t"
    by (simp add: power2_eq_square algebra_simps)
  ultimately have "ln A = r * t * (1 - alpha * t)"
    by linarith
  then show ?thesis
    using t reg(1) by simp
qed

lemma ln_15_bounds: "0 < ln (15::real)" "ln (15::real) \<le> 4"
proof -
  show "0 < ln (15::real)"
    by (simp add: ln_gt_zero)
  have "ln (2::real) \<le> 2 - 1"
    by (rule ln_le_minus_one) simp
  moreover have "ln (16::real) = ln (2 ^ 4)"
    by simp
  then have "ln (16::real) = 4 * ln 2"
    by (simp only: ln_realpow)
  moreover have "ln (15::real) \<le> ln 16"
    by simp
  ultimately show "ln (15::real) \<le> 4"
    by linarith
qed

lemma default_sqrt_bounds:
  "1 / 20 \<le> sqrt (1 / 16 - ln 15 / 100)" "sqrt (1 / 16 - ln 15 / 100) < 1 / 4"
proof -
  have b: "(1 / 20 :: real)\<^sup>2 \<le> 1 / 16 - ln 15 / 100" "1 / 16 - ln 15 / 100 < (1 / 4 :: real)\<^sup>2"
    using ln_15_bounds by (simp_all add: power2_eq_square)
  have "sqrt ((1 / 20)\<^sup>2) \<le> sqrt (1 / 16 - ln 15 / 100)"
    using b(1) by (rule real_sqrt_le_mono)
  then show "1 / 20 \<le> sqrt (1 / 16 - ln 15 / 100)"
    by simp
  have "sqrt (1 / 16 - ln 15 / 100) < sqrt ((1 / 4)\<^sup>2)"
    using b(2) by (rule real_sqrt_less_mono)
  then show "sqrt (1 / 16 - ln 15 / 100) < 1 / 4"
    by simp
qed

lemma default_calcular_tiempo_medio:
  "calcular_tiempo_medio self 50 (25 / 100) (1 / 100) ((800 - 50) / 50) =
     (if 50 + 200 * sqrt (1 / 16 - ln 15 / 100) \<le> Tf self
      then Some (50 + 200 * sqrt (1 / 16 - ln 15 / 100)) else None)"
proof -
  define s :: real where "s = sqrt (1 / 16 - ln 15 / 100)"
  define A :: real where "A = (800 - 50) / 50"
  define r :: real where "r = 25 / 100"
  define alpha :: real where "alpha = 1 / 100"
  have d: "r\<^sup>2 - 4 * (- r * alpha) * (- ln A) = 1 / 16 - ln 15 / 100"
    by (simp add: power2_eq_square A_def r_def alpha_def)
  have d0: "r\<^sup>2 - 4 * (- r * alpha) * (- ln A) \<ge> 0"
    unfolding d using ln_15_bounds by simp
  have A: "A > 0" and ra: "r * alpha \<noteq> 0"
    by (simp_all add: A_def r_def alpha_def)
  have s: "0 \<le> s" "s < 1 / 4"
    using default_sqrt_bounds unfolding s_def by linarith+
  have t1: "(- r + s) / (2 * (- r * alpha)) = 50 - 200 * s"
    and t2: "(- r - s) / (2 * (- r * alpha)) = 50 + 200 * s"
    by (simp_all add: field_simps r_def alpha_def)
  have c: "t_half_candidate (50 - 200 * s) (50 + 200 * s) = 50 + 200 * s"
    using s by (simp add: t_half_candidate_def max_def)
  have pos: "0 < 50 + 200 * s"
    using s by simp
  have "calcular_tiempo_medio self 50 r alpha A =
     (if 50 + 200 * s \<le> Tf self then Some (50 + 200 * s) else None)"
    unfolding calcular_tiempo_medio_regular [OF A ra d0] Let_def d s_def [symmetric] t1 t2 c
    using pos by simp
  then show ?thesis
    unfolding s_def A_def r_def alpha_def .
qed

lemma default_roots_cross_half:
  assumes "t = 50 - 200 * sqrt (1 / 16 - ln 15 / 100) \<or> t = 50 + 200 * sqrt (1 / 16 - ln 15 / 100)"
  shows "crecimiento_con_tratamiento t 50 800 (25 / 100) (1 / 100) = Inr 400"
proof -
  define s :: real where "s = sqrt (1 / 16 - ln 15 / 100)"
  have "(1 / 16 :: real) - ln 15 / 100 \<ge> 0"
    using ln_15_bounds by simp
  then have ss: "s * s = 1 / 16 - ln 15 / 100"
    by (simp add: s_def)
  have "t - 50 = - (200 * s) \<or> t - 50 = 200 * s"
    using assms unfolding s_def [symmetric] by auto
  then have "(t - 50) * (t - 50) = 40000 * (s * s)"
    by auto
  then have "(t - 50) * (t - 50) = 2500 - 400 * ln 15"
    unfolding ss by simp
  then have q: "ln 15 = (25 / 100) * t * (1 - (1 / 100) * t)"
    by (simp add: algebra_simps)
  have "exp (- (25 / 100) * t * (1 - (1 / 100) * t)) = exp (- ln 15)"
    using q by simp
  also have "\<dots> = 1 / 15"
    by (simp add: exp_minus)
  finally have "1 + (800 - 50) / 50 * exp (- (25 / 100) * t * (1 - (1 / 100) * t)) = 2"
    by simp
  then show ?thesis
    unfolding crecimiento_con_tratamiento_def py_div_def by simp
qed

subsection \<open>Rounding to 64-bit floats\<close>

text \<open>
  \<open>round64\<close> evaluated where the binary exponent is known, bounded above by a
  power of two, and on overflow; then the roundings met when the treated curve is
  evaluated at \<open>N0 = 200\<close>, \<open>K = 800\<close>, \<open>r = 1\<close>, \<open>alpha = 0.001\<close>.
\<close>

lemma round64_normal:
  fixes x :: real and e :: int
  assumes "2 powr of_int e \<le> \<bar>x\<bar>" and "\<bar>x\<bar> < 2 powr (of_int e + 1)" and "- 1022 \<le> e"
  shows "round64 x =
     (let q = 2 powr (of_int e - 52);
          m = q * of_int (round_half_even (\<bar>x\<bar> / q))
      in if m \<ge> 2 ^ 1024 then (if x > 0 then PosInf else NegInf) else Finite (sgn x * m))"
proof -
  have "0 < (2::real) powr of_int e"
    by simp
  then have pos: "0 < \<bar>x\<bar>"
    using assms(1) by linarith
  then have "\<lfloor>log 2 \<bar>x\<bar>\<rfloor> = e"
    using assms(1,2) by (subst floor_log_eq_powr_iff) simp_all
  then have "max \<lfloor>log 2 \<bar>x\<bar>\<rfloor> (- 1022) = e"
    using assms(3) by simp
  then show ?thesis
    using pos by (simp add: round64_def Let_def)
qed

lemma round_half_even_le_ceiling: "round_half_even u \<le> \<lceil>u\<rceil>"
proof (cases "u - of_int \<lfloor>u\<rfloor> < 1 / 2")
  case True
  then show ?thesis
    by (simp add: round_half_even_def Let_def)
next
  case False
  then have "of_int \<lfloor>u\<rfloor> < u"
    by linarith
  then have "\<lfloor>u\<rfloor> < \<lceil>u\<rceil>"
    by (simp add: less_ceiling_iff)
  then show ?thesis
    by (simp add: round_half_even_def Let_def)
qed

lemma round_half_even_nonneg: "0 \<le> u \<Longrightarrow> 0 \<le> round_half_even u"
  by (simp add: round_half_even_def Let_def)

lemma round64_upper:
  fixes y :: real and M :: int
  assumes "0 \<le> y" and "y \<le> 2 powr of_int M" and "- 1022 \<le> M" and "M < 1024"
  shows "\<exists>v. round64 y = Finite v \<and> 0 \<le> v \<and> v \<le> 2 powr of_int M"
proof (cases "y = 0")
  case True
  then show ?thesis
    by (simp add: round64_def)
next
  case False
  then have y: "0 < y"
    using assms(1) by simp
  define e where "e = max \<lfloor>log 2 \<bar>y\<bar>\<rfloor> (- 1022)"
  define q :: real where "q = 2 powr (of_int e - 52)"
  define m where "m = q * of_int (round_half_even (\<bar>y\<bar> / q))"
  have "log 2 y \<le> of_int M"
    using y assms(2) by (simp add: log_le_iff)
  then have "\<lfloor>log 2 y\<rfloor> \<le> M"
    by (simp add: floor_le_iff)
  then have eM: "e \<le> M"
    using assms(3) y by (simp add: e_def)
  have q: "0 < q"
    by (simp add: q_def)
  define N :: int where "N = 2 ^ nat (M - e + 52)"
  have "(2::real) powr of_int M = 2 powr (of_int e - 52) * 2 powr (of_int (M - e + 52))"
    by (simp add: powr_add [symmetric])
  also have "(2::real) powr (of_int (M - e + 52)) = 2 ^ nat (M - e + 52)"
    using eM by (subst powr_realpow [symmetric]) simp_all
  finally have qN: "2 powr of_int M = q * of_int N"
    by (simp add: q_def N_def)
  have "\<bar>y\<bar> / q \<le> of_int N"
    using y q assms(2) qN by (simp add: field_simps)
  then have "\<lceil>\<bar>y\<bar> / q\<rceil> \<le> N"
    by (rule ceiling_le)
  then have "round_half_even (\<bar>y\<bar> / q) \<le> N"
    using round_half_even_le_ceiling [of "\<bar>y\<bar> / q"] by linarith
  then have "(of_int (round_half_even (\<bar>y\<bar> / q)) :: real) \<le> of_int N"
    by simp
  then have mM: "m \<le> 2 powr of_int M"
    unfolding m_def qN using q by (intro mult_left_mono) simp_all
  have "0 \<le> round_half_even (\<bar>y\<bar> / q)"
    using q by (intro round_half_even_nonneg) simp
  then have m0: "0 \<le> m"
    using q by (simp add: m_def)
  have "2 powr of_int M \<le> (2::real) powr 1023"
    using assms(4) by (intro powr_mono) simp_all
  also have "\<dots> < 2 ^ 1024"
    by simp
  finally have "\<not> m \<ge> 2 ^ 1024"
    using mM by linarith
  moreover have "round64 y =
      (if m \<ge> 2 ^ 1024 then (if y > 0 then PosInf else NegInf) else Finite (sgn y * m))"
    using False unfolding round64_def Let_def m_def q_def e_def by simp
  ultimately have "round64 y = Finite (sgn y * m)"
    by (simp only: if_False)
  then have "round64 y = Finite m"
    using y by simp
  then show ?thesis
    using m0 mM by blast
qed

lemma round64_one_plus_tiny:
  fixes z :: real
  assumes "0 \<le> z" and "z \<le> 2 powr (- 53)"
  shows "round64 (1 + z) = Finite 1"
proof -
  have z: "z \<le> 1 / 2 ^ 53"
    using assms(2) by (simp add: powr_neg_numeral)
  define u where "u = (1 + z) * 2 ^ 52"
  have u: "2 ^ 52 \<le> u" "u \<le> 2 ^ 52 + 1 / 2"
    using assms(1) z by (simp_all add: u_def field_simps)
  have f: "\<lfloor>u\<rfloor> = 2 ^ 52"
    using u by (subst floor_eq_iff) simp
  have rhe: "round_half_even u = 2 ^ 52"
    using u by (simp add: round_half_even_def Let_def f)
  have arg: "\<bar>1 + z\<bar> / 2 powr (of_int 0 - 52) = u"
    using assms(1) by (simp add: u_def powr_neg_numeral)
  have "round64 (1 + z) =
     (let q = 2 powr (of_int 0 - 52);
          m = q * of_int (round_half_even (\<bar>1 + z\<bar> / q))
      in if m \<ge> 2 ^ 1024 then (if 1 + z > 0 then PosInf else NegInf)
         else Finite (sgn (1 + z) * m))"
    using assms(1) z by (intro round64_normal) simp_all
  also have "\<dots> = Finite 1"
    unfolding Let_def arg rhe using assms(1) by (simp add: powr_neg_numeral)
  finally show ?thesis .
qed


lemma round64_alpha: "round64 (1 / 1000) = Finite (1152921504606847 / 2 ^ 60)"
  by (subst round64_normal [where e = "- 10"])
     (simp_all add: powr_neg_numeral round_half_even_def Let_def)

lemma round64_alpha_t:
  "round64 (1152921504606847 / 2 ^ 60 * 40) = Finite (5764607523034235 / 2 ^ 57)"
  by (subst round64_normal [where e = "- 5"])
     (simp_all add: powr_neg_numeral round_half_even_def Let_def)

lemma round64_one_minus:
  "round64 (1 + - (5764607523034235 / 2 ^ 57)) = Finite (1080863910568919 / 2 ^ 50)"
  by (subst round64_normal [where e = "- 1"])
     (simp_all add: powr_neg_numeral round_half_even_def Let_def)

lemma round64_minus_r_t: "round64 (- 1 * 40) = Finite (- 40)"
  by (subst round64_normal [where e = 5])
     (simp_all add: powr_neg_numeral round_half_even_def Let_def)

lemma round64_exponent:
  "round64 (- 40 * (1080863910568919 / 2 ^ 50)) = Finite (- (5404319552844595 / 2 ^ 47))"
  by (subst round64_normal [where e = 5])
     (simp_all add: powr_neg_numeral round_half_even_def Let_def)

lemma round64_K_minus_N0: "round64 (800 + - 200) = Finite 600"
  by (subst round64_normal [where e = 9])
     (simp_all add: powr_neg_numeral round_half_even_def Let_def)

lemma round64_A: "round64 (600 / 200) = Finite 3"
  by (subst round64_normal [where e = 1])
     (simp_all add: powr_neg_numeral round_half_even_def Let_def)

lemma round64_K: "round64 (800 / 1) = Finite 800"
  by (subst round64_normal [where e = 9])
     (simp_all add: powr_neg_numeral round_half_even_def Let_def)

lemma exp_383_10_lower: "(2::real) ^ 55 \<le> exp (383 / 10)"
proof -
  have "(1::real) + 1 / 10 + (1 / 10)\<^sup>2 / 2 \<le> exp (1 / 10)"
    by (rule exp_lower_Taylor_quadratic) simp
  then have a1: "(221 / 200 :: real) \<le> exp (1 / 10)"
    by (simp add: power2_eq_square)
  have "(2714 / 1000 :: real) \<le> (221 / 200) ^ 10"
    by (simp add: power_divide)
  also have "\<dots> \<le> exp (1 / 10) ^ 10"
    using a1 by (intro power_mono) simp_all
  also have "\<dots> = exp (of_nat 10 * (1 / 10))"
    by (rule exp_of_nat_mult [symmetric])
  finally have a2: "(2714 / 1000 :: real) \<le> exp 1"
    by simp
  have "(173000000 :: real) \<le> (2714 / 1000) ^ 19"
    by (simp add: power_divide)
  also have "\<dots> \<le> exp 1 ^ 19"
    using a2 by (intro power_mono) simp_all
  also have "\<dots> = exp (of_nat 19 * 1)"
    by (rule exp_of_nat_mult [symmetric])
  finally have a3: "(173000000 :: real) \<le> exp 19"
    by simp
  have "(173000000 :: real) ^ 2 \<le> exp 19 ^ 2"
    using a3 by (intro power_mono) simp_all
  also have "\<dots> = exp (of_nat 2 * 19)"
    by (rule exp_of_nat_mult [symmetric])
  finally have a4: "(29929000000000000 :: real) \<le> exp 38"
    by simp
  have "(1349 / 1000 :: real) \<le> (221 / 200) ^ 3"
    by (simp add: power_divide)
  also have "\<dots> \<le> exp (1 / 10) ^ 3"
    using a1 by (intro power_mono) simp_all
  also have "\<dots> = exp (of_nat 3 * (1 / 10))"
    by (rule exp_of_nat_mult [symmetric])
  finally have a5: "(1349 / 1000 :: real) \<le> exp (3 / 10)"
    by simp
  have "(29929000000000000 :: real) * (1349 / 1000) \<le> exp 38 * exp (3 / 10)"
    using a4 a5 by (intro mult_mono) simp_all
  also have "\<dots> = exp (38 + 3 / 10)"
    by (rule exp_add [symmetric])
  finally have "(29929000000000000 :: real) * (1349 / 1000) \<le> exp (383 / 10)"
    by simp
  then show ?thesis
    by simp
qed

lemma exp_exponent_small: "exp (- (5404319552844595 / 2 ^ 47) :: real) \<le> 2 powr (- 55)"
proof -
  have "(0::real) < exp (383 / 10)"
    by simp
  have "exp (- (5404319552844595 / 2 ^ 47) :: real) \<le> exp (- (383 / 10))"
    by simp
  also have "\<dots> = 1 / exp (383 / 10)"
    by (simp add: exp_minus field_simps)
  also have "\<dots> \<le> 1 / 2 ^ 55"
    using exp_383_10_lower by (intro divide_left_mono) simp_all
  also have "\<dots> = 2 powr (- 55)"
    by (simp add: powr_neg_numeral)
  finally show ?thesis .
qed

lemma f64_exp_exponent:
  "\<exists>v. f64_exp (Finite (- (5404319552844595 / 2 ^ 47))) = Finite v \<and> 0 \<le> v \<and> v \<le> 2 powr (- 55)"
  using round64_upper [of "exp (- (5404319552844595 / 2 ^ 47))" "- 55"] exp_exponent_small
  by simp

lemma f64_mul_3_tiny:
  assumes "0 \<le> v" and "v \<le> 2 powr (- 55)"
  shows "\<exists>z. f64_mul (Finite 3) (Finite v) = Finite z \<and> 0 \<le> z \<and> z \<le> 2 powr (- 53)"
proof -
  have "v \<le> 1 / 2 ^ 55"
    using assms(2) by (simp add: powr_neg_numeral)
  then have "3 * v \<le> 1 / 2 ^ 53"
    by simp
  then have "3 * v \<le> 2 powr of_int (- 53)"
    by (simp add: powr_neg_numeral)
  then show ?thesis
    using round64_upper [of "3 * v" "- 53"] assms(1) by simp
qed

lemma round_half_even_ge_floor: "\<lfloor>u\<rfloor> \<le> round_half_even u"
  by (simp add: round_half_even_def Let_def)

lemma round64_overflow:
  fixes x :: real
  assumes "2 ^ 1024 \<le> x"
  shows "round64 x = PosInf"
proof -
  have x: "0 < x"
    using assms by (rule less_le_trans [rotated]) simp
  define e where "e = max \<lfloor>log 2 \<bar>x\<bar>\<rfloor> (- 1022)"
  define q :: real where "q = 2 powr (of_int e - 52)"
  define m where "m = q * of_int (round_half_even (\<bar>x\<bar> / q))"
  have q: "0 < q"
    by (simp add: q_def)
  have "(2::real) powr 1024 \<le> x"
    using assms by simp
  then have "1024 \<le> log 2 x"
    using x by (simp add: le_log_iff)
  then have "1024 \<le> \<lfloor>log 2 x\<rfloor>"
    by (simp add: le_floor_iff)
  then have e: "\<lfloor>log 2 x\<rfloor> = e" "1024 \<le> e"
    using x by (simp_all add: e_def)
  have "q * 2 powr 52 = 2 powr (of_int e - 52 + 52)"
    unfolding q_def by (rule powr_add [symmetric])
  then have qe: "2 powr of_int e = q * 2 ^ 52"
    by simp
  have "2 powr of_int e \<le> x"
    using x e(1) by (simp add: floor_log_eq_powr_iff)
  then have "2 ^ 52 \<le> \<bar>x\<bar> / q"
    unfolding qe using q x by (simp add: field_simps)
  then have "2 ^ 52 \<le> \<lfloor>\<bar>x\<bar> / q\<rfloor>"
    by (simp add: le_floor_iff)
  then have "2 ^ 52 \<le> round_half_even (\<bar>x\<bar> / q)"
    using round_half_even_ge_floor [of "\<bar>x\<bar> / q"] by linarith
  then have "(of_int (2 ^ 52) :: real) \<le> of_int (round_half_even (\<bar>x\<bar> / q))"
    by (simp only: of_int_le_iff)
  then have "(2::real) ^ 52 \<le> of_int (round_half_even (\<bar>x\<bar> / q))"
    by simp
  then have "q * 2 ^ 52 \<le> m"
    unfolding m_def using q by (intro mult_left_mono) simp_all
  moreover have "(2::real) powr 1024 \<le> 2 powr of_int e"
    using e(2) by (intro powr_mono) simp_all
  ultimately have "2 ^ 1024 \<le> m"
    unfolding qe by simp
  moreover have "round64 x =
      (if m \<ge> 2 ^ 1024 then (if x > 0 then PosInf else NegInf) else Finite (sgn x * m))"
    using x unfolding round64_def Let_def m_def q_def e_def by simp
  ultimately show ?thesis
    using x by simp
qed

lemma exp_2000_overflows: "(2::real) ^ 1024 \<le> exp 2000"
proof -
  have "(2::real) \<le> exp 1"
    using exp_ge_add_one_self [of 1] by simp
  then have "(2::real) ^ 2000 \<le> exp 1 ^ 2000"
    by (intro power_mono) simp_all
  also have "\<dots> = exp (of_nat 2000 * 1)"
    by (rule exp_of_nat_mult [symmetric])
  finally have "(2::real) ^ 2000 \<le> exp 2000"
    by simp
  moreover have "(2::real) ^ 1024 \<le> 2 ^ 2000"
    by (intro power_increasing) simp_all
  ultimately show ?thesis
    by linarith
qed

lemma round64_alpha_2000: "round64 (1152921504606847 / 2 ^ 60 * 2000) = Finite 2"
  by (subst round64_normal [where e = 1])
     (simp_all add: powr_neg_numeral round_half_even_def Let_def)

lemma round64_one_minus_two: "round64 (1 + - 2) = Finite (- 1)"
  by (subst round64_normal [where e = 0])
     (simp_all add: powr_neg_numeral round_half_even_def Let_def)

lemma round64_minus_r_2000: "round64 (- 1 * 2000) = Finite (- 2000)"
  by (subst round64_normal [where e = 10])
     (simp_all add: powr_neg_numeral round_half_even_def Let_def)

lemma round64_exponent_2000: "round64 (- 2000 * - 1) = Finite 2000"
  by (subst round64_normal [where e = 10])
     (simp_all add: powr_neg_numeral round_half_even_def Let_def)

lemma treated_f64_reaches_zero:
  "crecimiento_con_tratamiento_f64 (Finite 2000) (Finite 200) (Finite 800) (Finite 1)
     (round64 (1 / 1000)) = Inr (Finite 0)"
proof -
  have A: "f64_div (f64_sub (Finite 800) (Finite 200)) (Finite 200) = Finite 3"
    by (simp only: f64_sub_def f64_neg.simps f64_add.simps round64_K_minus_N0 f64_div.simps
        round64_A) simp
  have x: "f64_mul (f64_mul (f64_neg (Finite 1)) (Finite 2000))
             (f64_sub (Finite 1) (f64_mul (round64 (1 / 1000)) (Finite 2000)))
           = Finite 2000"
    by (simp only: round64_alpha f64_mul.simps f64_neg.simps f64_sub_def f64_add.simps
        round64_alpha_2000 round64_one_minus_two round64_minus_r_2000 round64_exponent_2000)
  have e: "f64_exp (Finite 2000) = PosInf"
    using round64_overflow [OF exp_2000_overflows] by simp
  show ?thesis
    unfolding crecimiento_con_tratamiento_f64_def Let_def A x e
    by simp
qed

section \<open>Properties of the growth curves\<close>

text \<open>
  C7. For every \<open>N0 > 0\<close> and \<open>Td > 0\<close> the untreated curve starts at \<open>N0\<close>:
  \<open>N0 * 2^(0/Td) * exp(-0.02*0) = N0\<close> exactly.
\<close>

theorem untreated_at_zero:
  fixes N0 Td :: real
  assumes "N0 > 0" and "Td > 0"
  shows "crecimiento_sin_tratamiento 0 N0 Td = Inr N0"
  using assms by (simp add: crecimiento_sin_tratamiento_def py_div_def)

theorem untreated_at_zero_witness:
  "(50::real) > 0 \<and> (35 / 10 :: real) > 0 \<and> crecimiento_sin_tratamiento 0 50 (35 / 10) = Inr 50"
  using untreated_at_zero [of 50 "35 / 10"] by simp

text \<open>
  C8. For every \<open>N0 > 0\<close>, \<open>K > 0\<close>, \<open>r > 0\<close>, \<open>alpha \<ge> 0\<close> the treated curve
  starts at \<open>N0\<close>: at \<open>t = 0\<close> the denominator is \<open>1 + A\<close> with
  \<open>A = (K - N0) / N0\<close>, and \<open>K / (1 + A) = N0\<close>.
\<close>

theorem treated_at_zero:
  fixes N0 K r alpha :: real
  assumes "N0 > 0" and "K > 0" and "r > 0" and "alpha \<ge> 0"
  shows "crecimiento_con_tratamiento 0 N0 K r alpha = Inr N0"
proof -
  have "1 + (K - N0) / N0 = K / N0"
    using assms(1) by (simp add: field_simps)
  then show ?thesis
    using assms by (simp add: crecimiento_con_tratamiento_def py_div_def)
qed

theorem treated_at_zero_witness:
  "(50::real) > 0 \<and> (800::real) > 0 \<and> (1 / 4 :: real) > 0 \<and> (1 / 100 :: real) \<ge> 0
   \<and> crecimiento_con_tratamiento 0 50 800 (1 / 4) (1 / 100) = Inr 50"
  using treated_at_zero [of 50 800 "1 / 4" "1 / 100"] by simp

text \<open>
  C10, as stated, asks that for every \<open>0 < N0 < K\<close>, \<open>r > 0\<close>, \<open>alpha \<ge> 0\<close>
  and every \<open>t\<close> the treated curve return a value strictly between \<open>0\<close> and
  \<open>K\<close>. The program's floats do not: at \<open>t = 40\<close>, \<open>N0 = 200\<close>, \<open>K = 800\<close>,
  \<open>r = 1\<close> and \<open>alpha\<close> the float written \<^verbatim>\<open>0.001\<close>, the product
  \<open>A * exp(...)\<close> is at most \<open>2^-53\<close>, the denominator rounds to \<open>1\<close> and the
  result is \<open>K\<close> itself.
\<close>

theorem treated_f64_reaches_capacity:
  "crecimiento_con_tratamiento_f64 (Finite 40) (Finite 200) (Finite 800) (Finite 1)
     (round64 (1 / 1000)) = Inr (Finite 800)"
proof -
  obtain v where v: "f64_exp (Finite (- (5404319552844595 / 2 ^ 47))) = Finite v"
    "0 \<le> v" "v \<le> 2 powr (- 55)"
    using f64_exp_exponent by blast
  obtain z where z: "f64_mul (Finite 3) (Finite v) = Finite z" "0 \<le> z" "z \<le> 2 powr (- 53)"
    using f64_mul_3_tiny [OF v(2,3)] by blast
  have A: "f64_div (f64_sub (Finite 800) (Finite 200)) (Finite 200) = Finite 3"
    by (simp only: f64_sub_def f64_neg.simps f64_add.simps round64_K_minus_N0 f64_div.simps
        round64_A) simp
  have x: "f64_mul (f64_mul (f64_neg (Finite 1)) (Finite 40))
             (f64_sub (Finite 1) (f64_mul (round64 (1 / 1000)) (Finite 40)))
           = Finite (- (5404319552844595 / 2 ^ 47))"
    by (simp only: round64_alpha f64_mul.simps f64_neg.simps f64_sub_def f64_add.simps
        round64_alpha_t round64_one_minus round64_minus_r_t round64_exponent)
  have d: "f64_add (Finite 1) (Finite z) = Finite 1"
    using round64_one_plus_tiny [OF z(2,3)] by simp
  have k: "f64_div (Finite 800) (Finite 1) = Finite 800"
    using round64_K by simp
  show ?thesis
    unfolding crecimiento_con_tratamiento_f64_def Let_def A x v(1) z(1) d k
    by simp
qed

text \<open>
  C10, amended. In exact real arithmetic, for every \<open>0 < N0 < K\<close>, \<open>r > 0\<close>,
  \<open>alpha \<ge> 0\<close> and every \<open>t\<close> (also past the point \<open>alpha * t > 1\<close> where the rate
  changes sign) the treated curve is strictly between \<open>0\<close> and \<open>K\<close>: \<open>A > 0\<close>
  keeps the denominator above \<open>1\<close>.
\<close>

theorem treated_between_zero_and_capacity:
  fixes N0 K r alpha t :: real
  assumes "0 < N0" and "N0 < K" and "r > 0" and "alpha \<ge> 0"
  shows "\<exists>y. crecimiento_con_tratamiento t N0 K r alpha = Inr y \<and> 0 < y \<and> y < K"
proof -
  define A where "A = (K - N0) / N0"
  define d where "d = 1 + A * exp (- r * t * (1 - alpha * t))"
  have A: "A > 0"
    using assms by (simp add: A_def)
  have d: "d > 1"
    using A by (simp add: d_def)
  have K: "K > 0"
    using assms by linarith
  have eq: "crecimiento_con_tratamiento t N0 K r alpha = Inr (K / d)"
    using assms(1) d by (simp add: crecimiento_con_tratamiento_def py_div_def A_def d_def)
  have "0 < K / d"
    using K d by simp
  moreover have "K / d < K"
    using K d by (simp add: field_simps)
  ultimately show ?thesis
    using eq by blast
qed

theorem treated_between_zero_and_capacity_witness:
  "(0::real) < 50 \<and> (50::real) < 800 \<and> (1 / 4 :: real) > 0 \<and> (1 / 100 :: real) \<ge> 0
   \<and> (\<exists>y. crecimiento_con_tratamiento 200 50 800 (1 / 4) (1 / 100) = Inr y \<and> 0 < y \<and> y < 800)"
  using treated_between_zero_and_capacity [of 50 800 "1 / 4" "1 / 100" 200] by simp

section \<open>Properties of the half-capacity solver\<close>

text \<open>
  C1, as stated, asks that for the constructor's defaults \<open>K = 800\<close>, \<open>N0 = 50\<close>,
  \<open>r = 0.25\<close>, \<open>alpha = 0.01\<close>, \<open>Tf = 40\<close> the solver return a time
  \<open>0 < t \<le> 40\<close> at which the treated curve equals \<open>400\<close>. It returns
  \<open>None\<close>.
\<close>

theorem default_half_time_is_none:
  "calcular_tiempo_medio default_simulator 50 (25 / 100) (1 / 100) ((800 - 50) / 50) = None"
proof -
  have "\<not> 50 + 200 * sqrt (1 / 16 - ln 15 / 100) \<le> Tf default_simulator"
    using default_sqrt_bounds(1) by (simp add: default_simulator_def)
  then show ?thesis
    unfolding default_calcular_tiempo_medio by (simp only: if_False)
qed

text \<open>
  C1, amended. For \<open>K = 800\<close>, \<open>N0 = 50\<close>, \<open>r = 0.25\<close>, \<open>alpha = 0.01\<close>
  both roots are positive and the solver selects the larger one,
  \<open>t2 = 50 + 200 * sqrt (1/16 - ln 15 / 100)\<close>, where the treated curve equals
  \<open>400 = K / 2\<close>. It returns \<open>t2\<close> exactly when \<open>t2 \<le> Tf\<close>; since \<open>t2 > 40\<close>,
  the result for the default horizon \<open>Tf = 40\<close> is \<open>None\<close>.
\<close>

theorem default_half_time_larger_root:
  "calcular_tiempo_medio self 50 (25 / 100) (1 / 100) ((800 - 50) / 50) =
     (if 50 + 200 * sqrt (1 / 16 - ln 15 / 100) \<le> Tf self
      then Some (50 + 200 * sqrt (1 / 16 - ln 15 / 100)) else None)
   \<and> crecimiento_con_tratamiento (50 + 200 * sqrt (1 / 16 - ln 15 / 100)) 50 800 (25 / 100) (1 / 100)
       = Inr 400
   \<and> 40 < 50 + 200 * sqrt (1 / 16 - ln 15 / 100)
   \<and> Tf default_simulator = 40"
proof -
  have "40 < 50 + 200 * sqrt (1 / 16 - ln 15 / 100)"
    using default_sqrt_bounds(1) by simp
  moreover have "Tf default_simulator = 40"
    by (simp add: default_simulator_def)
  moreover note default_calcular_tiempo_medio [of self]
    default_roots_cross_half [of "50 + 200 * sqrt (1 / 16 - ln 15 / 100)"]
  ultimately show ?thesis
    by blast
qed

theorem default_half_time_larger_root_witness:
  "50 + 200 * sqrt (1 / 16 - ln 15 / 100) \<le> Tf (default_simulator\<lparr>Tf := 100\<rparr>)
   \<and> calcular_tiempo_medio (default_simulator\<lparr>Tf := 100\<rparr>) 50 (25 / 100) (1 / 100) ((800 - 50) / 50)
       = Some (50 + 200 * sqrt (1 / 16 - ln 15 / 100))"
proof -
  have le: "50 + 200 * sqrt (1 / 16 - ln 15 / 100) \<le> Tf (default_simulator\<lparr>Tf := 100\<rparr>)"
    using default_sqrt_bounds(2) by simp
  have "calcular_tiempo_medio (default_simulator\<lparr>Tf := 100\<rparr>) 50 (25 / 100) (1 / 100) ((800 - 50) / 50) =
     (if 50 + 200 * sqrt (1 / 16 - ln 15 / 100) \<le> Tf (default_simulator\<lparr>Tf := 100\<rparr>)
      then Some (50 + 200 * sqrt (1 / 16 - ln 15 / 100)) else None)"
    using default_half_time_larger_root [of "default_simulator\<lparr>Tf := 100\<rparr>"] by (rule conjunct1)
  then show ?thesis
    using le by (simp only: if_True simp_thms)
qed

text \<open>
  C2. Soundness of the solver: for every \<open>N0 > 0\<close>, \<open>K > 0\<close>, \<open>r > 0\<close>,
  \<open>alpha \<ge> 0\<close>, \<open>A = (K - N0) / N0\<close> and horizon \<open>Tf > 0\<close>, a returned time
  \<open>t\<close> satisfies \<open>0 < t \<le> Tf\<close> and the treated curve equals \<open>K / 2\<close> at \<open>t\<close>.
\<close>

theorem solver_sound:
  fixes N0 K r alpha t :: real
  assumes "N0 > 0" and "K > 0" and "r > 0" and "alpha \<ge> 0" and "Tf self > 0"
    and "calcular_tiempo_medio self N0 r alpha ((K - N0) / N0) = Some t"
  shows "0 < t \<and> t \<le> Tf self \<and> crecimiento_con_tratamiento t N0 K r alpha = Inr (K / 2)"
proof -
  define A where "A = (K - N0) / N0"
  have root: "0 < t" "t \<le> Tf self" "A > 0" "ln A = r * t * (1 - alpha * t)"
    using calcular_tiempo_medio_Some_root [OF assms(6)] by (simp_all add: A_def)
  have "exp (- r * t * (1 - alpha * t)) = exp (- ln A)"
    using root(4) by simp
  also have "\<dots> = 1 / A"
    using root(3) by (simp add: exp_minus field_simps)
  finally have "1 + A * exp (- r * t * (1 - alpha * t)) = 2"
    using root(3) by simp
  then have "crecimiento_con_tratamiento t N0 K r alpha = Inr (K / 2)"
    using assms(1) unfolding crecimiento_con_tratamiento_def py_div_def A_def by simp
  then show ?thesis
    using root by simp
qed


theorem solver_sound_witness:
  "(400::real) > 0 \<and> (800::real) > 0 \<and> (1 / 4 :: real) > 0 \<and> (1 / 10 :: real) \<ge> 0
   \<and> Tf default_simulator > 0
   \<and> calcular_tiempo_medio default_simulator 400 (1 / 4) (1 / 10) ((800 - 400) / 400) = Some 10
   \<and> crecimiento_con_tratamiento 10 400 800 (1 / 4) (1 / 10) = Inr (800 / 2)"
proof -
  have s: "sqrt ((1 / 4)\<^sup>2) = (1 / 4 :: real)"
    by simp
  have "t_half_candidate 0 (10::real) = 10"
    by (simp add: t_half_candidate_def)
  then have h: "calcular_tiempo_medio default_simulator 400 (1 / 4) (1 / 10) ((800 - 400) / 400) = Some 10"
    using s by (simp add: calcular_tiempo_medio_def tiempo_medio_try_def np_log_def np_sqrt_def
        py_div_def default_simulator_def Let_def)
  have tf: "Tf default_simulator > 0"
    by (simp add: default_simulator_def)
  show ?thesis
    using solver_sound [of 400 800 "1 / 4" "1 / 10" default_simulator 10] h tf by simp
qed

text \<open>
  C3. Root selection: for \<open>A > 0\<close>, \<open>r > 0\<close>, \<open>alpha > 0\<close> and a discriminant
  that is not negative, with \<open>t1\<close>, \<open>t2\<close> the two roots as the source computes them,
  the candidate is \<open>max t1 t2\<close> when both are positive and the positive one when exactly
  one is; the solver returns the candidate if and only if \<open>0 < candidate \<le> Tf\<close>, and
  \<open>None\<close> otherwise.
\<close>

theorem root_selection_policy:
  fixes N0 r alpha A :: real
  assumes "A > 0" and "r > 0" and "alpha > 0"
    and "r\<^sup>2 - 4 * (- r * alpha) * (- ln A) \<ge> 0"
  shows "let s = sqrt (r\<^sup>2 - 4 * (- r * alpha) * (- ln A));
             t1 = (- r + s) / (2 * (- r * alpha));
             t2 = (- r - s) / (2 * (- r * alpha));
             c = t_half_candidate t1 t2
         in (t1 > 0 \<and> t2 > 0 \<longrightarrow> c = max t1 t2)
          \<and> (t1 > 0 \<and> \<not> t2 > 0 \<longrightarrow> c = t1)
          \<and> (\<not> t1 > 0 \<and> t2 > 0 \<longrightarrow> c = t2)
          \<and> calcular_tiempo_medio self N0 r alpha A
              = (if 0 < c \<and> c \<le> Tf self then Some c else None)"
proof -
  have ra: "r * alpha \<noteq> 0"
    using assms(2,3) by simp
  show ?thesis
    unfolding calcular_tiempo_medio_regular [OF assms(1) ra assms(4)]
    by (simp add: Let_def t_half_candidate_def)
qed

theorem root_selection_policy_witness:
  "exp (15 / 8 :: real) > 0 \<and> (1::real) > 0 \<and> (1 / 10 :: real) > 0
   \<and> (1::real)\<^sup>2 - 4 * (- 1 * (1 / 10)) * (- ln (exp (15 / 8))) \<ge> 0
   \<and> t_half_candidate (5 / 2) (15 / 2) = (15 / 2 :: real)
   \<and> calcular_tiempo_medio default_simulator 1 1 (1 / 10) (exp (15 / 8)) = Some (15 / 2)"
proof -
  have s: "sqrt (1 / 4) = (1 / 2 :: real)"
    by (rule real_sqrt_unique) (simp_all add: power2_eq_square)
  have d: "(1::real)\<^sup>2 - 4 * (- 1 * (1 / 10)) * (- ln (exp (15 / 8))) = 1 / 4"
    by simp
  have c: "t_half_candidate (5 / 2) (15 / 2) = (15 / 2 :: real)"
    by (simp add: t_half_candidate_def)
  have "calcular_tiempo_medio default_simulator 1 1 (1 / 10) (exp (15 / 8)) = Some (15 / 2)"
    using root_selection_policy [of "exp (15 / 8)" 1 "1 / 10" default_simulator 1]
    unfolding d s by (simp add: Let_def c default_simulator_def)
  then show ?thesis
    using c d by simp
qed

text \<open>
  C4. The solver never raises: the body of the \<^verbatim>\<open>try\<close> block fails exactly
  when \<open>A \<le> 0\<close> (the logarithm) or \<open>r * alpha = 0\<close> (the division by
  \<open>2 * a_param\<close>; the square root is guarded by the test on the discriminant), and
  every such failure becomes the result \<open>None\<close>.
\<close>

theorem solver_never_raises:
  fixes N0 r alpha A :: real
  shows "((\<exists>e. tiempo_medio_try self N0 r alpha A = Inl e) \<longleftrightarrow> A \<le> 0 \<or> r * alpha = 0)
       \<and> ((\<exists>e. tiempo_medio_try self N0 r alpha A = Inl e)
            \<longrightarrow> calcular_tiempo_medio self N0 r alpha A = None)"
proof -
  have "\<exists>e. tiempo_medio_try self N0 r alpha A = Inl e" if "A \<le> 0 \<or> r * alpha = 0"
    using that tiempo_medio_try_log_fails [of A self N0 r alpha]
      tiempo_medio_try_div_fails [of A r alpha self N0]
    by (cases "A \<le> 0") auto
  moreover have "A \<le> 0 \<or> r * alpha = 0" if "tiempo_medio_try self N0 r alpha A = Inl e" for e
  proof (rule ccontr)
    assume "\<not> (A \<le> 0 \<or> r * alpha = 0)"
    then have A: "A > 0" and ra: "r * alpha \<noteq> 0"
      by simp_all
    show False
    proof (cases "r\<^sup>2 - 4 * (- r * alpha) * (- ln A) \<ge> 0")
      case True
      show False
        using that unfolding tiempo_medio_try_regular [OF A ra True]
        by (simp add: Let_def split: if_splits)
    next
      case False
      then show False
        using that tiempo_medio_try_negative_discriminant [of A r alpha self N0] A by simp
    qed
  qed
  moreover have "calcular_tiempo_medio self N0 r alpha A = None"
    if "tiempo_medio_try self N0 r alpha A = Inl e" for e
    using that by (simp add: calcular_tiempo_medio_def)
  ultimately show ?thesis
    by blast
qed

theorem solver_never_raises_witness:
  "(\<exists>e. tiempo_medio_try default_simulator 50 (1 / 4) 0 15 = Inl e)
   \<and> calcular_tiempo_medio default_simulator 50 (1 / 4) 0 15 = None"
  using solver_never_raises [of default_simulator 50 "1 / 4" 0 15] by simp

text \<open>
  C5. For every \<open>A \<le> 0\<close> the solver returns \<open>None\<close>; in particular when
  \<open>N0 \<ge> K > 0\<close>, where the caller computes \<open>A = (K - N0) / N0 \<le> 0\<close>
  (\<open>N0 = K\<close> gives \<open>A = 0\<close>, \<open>N0 > K\<close> gives \<open>A < 0\<close>).
\<close>

theorem no_headroom_gives_none:
  fixes N0 r alpha A :: real
  shows "(A \<le> 0 \<longrightarrow> calcular_tiempo_medio self N0 r alpha A = None)
       \<and> (0 < K self \<and> K self \<le> N0 \<longrightarrow> update_plot_t_half self N0 r alpha = Inr None)"
proof -
  have a: "calcular_tiempo_medio self N0 r alpha A = None" if "A \<le> 0" for A
    using tiempo_medio_try_log_fails [OF that, of self N0 r alpha]
    by (simp add: calcular_tiempo_medio_def)
  have "update_plot_t_half self N0 r alpha = Inr None" if "0 < K self" and "K self \<le> N0"
  proof -
    have "N0 \<noteq> 0" and "(K self - N0) / N0 \<le> 0"
      using that by (simp_all add: divide_le_0_iff)
    then show ?thesis
      using a [of "(K self - N0) / N0"] by (simp add: update_plot_t_half_def py_div_def)
  qed
  then show ?thesis
    using a by blast
qed

theorem no_headroom_gives_none_witness:
  "((800 - 800) / 800 :: real) \<le> 0 \<and> ((800 - 900) / 900 :: real) \<le> 0
   \<and> 0 < K default_simulator \<and> K default_simulator \<le> 900
   \<and> calcular_tiempo_medio default_simulator 800 (1 / 4) (1 / 100) ((800 - 800) / 800) = None
   \<and> calcular_tiempo_medio default_simulator 900 (1 / 4) (1 / 100) ((800 - 900) / 900) = None
   \<and> update_plot_t_half default_simulator 900 (1 / 4) (1 / 100) = Inr None"
proof -
  have k: "K default_simulator = 800"
    by (simp add: default_simulator_def)
  show ?thesis
    using no_headroom_gives_none [of "(800 - 800) / 800" default_simulator 800 "1 / 4" "1 / 100"]
      no_headroom_gives_none [of "(800 - 900) / 900" default_simulator 900 "1 / 4" "1 / 100"]
    unfolding k by simp
qed

text \<open>
  C6. For every \<open>A > 0\<close> whose discriminant \<open>b\<^sup>2 - 4 * a * c\<close>, with
  \<open>a = - r * alpha\<close>, \<open>b = r\<close>, \<open>c = - ln A\<close>, is negative, the solver returns
  \<open>None\<close>.
\<close>

theorem negative_discriminant_gives_none:
  fixes N0 r alpha A :: real
  assumes "A > 0" and "r\<^sup>2 - 4 * (- r * alpha) * (- ln A) < 0"
  shows "calcular_tiempo_medio self N0 r alpha A = None"
  using tiempo_medio_try_negative_discriminant [OF assms, of self N0]
  by (simp add: calcular_tiempo_medio_def)

theorem negative_discriminant_gives_none_witness:
  "exp (1::real) > 0 \<and> (1::real)\<^sup>2 - 4 * (- 1 * 1) * (- ln (exp 1)) < 0
   \<and> calcular_tiempo_medio default_simulator 1 1 1 (exp 1) = None"
  using negative_discriminant_gives_none [of "exp 1" 1 1 default_simulator 1] by simp

text \<open>
  C9. For every \<open>N0 > 0\<close>, \<open>r > 0\<close>, \<open>A > 0\<close> and every horizon, the solver
  returns \<open>None\<close> when \<open>alpha = 0\<close>: \<open>a_param\<close> is zero and the division fails.
  There is no fall-back to the linear solution \<open>t = ln A / r\<close>, although the
  pure logistic curve does reach \<open>K / 2\<close> at that time.
\<close>

theorem pure_logistic_never_solved:
  fixes N0 K r A :: real
  assumes "N0 > 0" and "r > 0" and "A > 0"
  shows "tiempo_medio_try self N0 r 0 A = Inl ZeroDivisionError
       \<and> calcular_tiempo_medio self N0 r 0 A = None
       \<and> (A = (K - N0) / N0 \<longrightarrow> crecimiento_con_tratamiento (ln A / r) N0 K r 0 = Inr (K / 2))"
proof -
  have fails: "tiempo_medio_try self N0 r 0 A = Inl ZeroDivisionError"
    using assms(3) by (intro tiempo_medio_try_div_fails) simp_all
  then have none: "calcular_tiempo_medio self N0 r 0 A = None"
    by (simp add: calcular_tiempo_medio_def)
  have "crecimiento_con_tratamiento (ln A / r) N0 K r 0 = Inr (K / 2)" if "A = (K - N0) / N0"
  proof -
    have "exp (- r * (ln A / r) * (1 - 0 * (ln A / r))) = exp (- ln A)"
      using assms(2) by simp
    also have "\<dots> = 1 / A"
      using assms(3) by (simp add: exp_minus field_simps)
    finally have "1 + A * exp (- r * (ln A / r) * (1 - 0 * (ln A / r))) = 2"
      using assms(3) by simp
    then show ?thesis
      using assms(1) that unfolding crecimiento_con_tratamiento_def py_div_def by simp
  qed
  then show ?thesis
    using fails none by blast
qed

theorem pure_logistic_never_solved_witness:
  "(50::real) > 0 \<and> (1 / 4 :: real) > 0 \<and> (15::real) > 0 \<and> (15::real) = (800 - 50) / 50
   \<and> tiempo_medio_try default_simulator 50 (1 / 4) 0 15 = Inl ZeroDivisionError
   \<and> calcular_tiempo_medio default_simulator 50 (1 / 4) 0 15 = None
   \<and> crecimiento_con_tratamiento (ln 15 / (1 / 4)) 50 800 (1 / 4) 0 = Inr (800 / 2)"
  using pure_logistic_never_solved [of 50 "1 / 4" 15 default_simulator 800] by simp

end
